theory Spec2Isabelle
  imports Main "HOL-Library.Sublist"
begin

section \<open>Strings: the JavaScript primitives used by \<open>main.js\<close>\<close>

text \<open>
  A JavaScript string is modelled as a \<^typ>\<open>string\<close>. \<open>toLowerCase\<close> maps the letters
  \<open>A\<close> to \<open>Z\<close> to \<open>a\<close> to \<open>z\<close> (code 65 to 90, plus 32) and leaves every other character
  alone: the model covers ASCII text, which is what every keyword, material name and preset
  name of the program is made of. A character outside ASCII is carried as its UTF-8 bytes and
  is never inspected.
\<close>

definition toLowerChar :: "char \<Rightarrow> char" where
  "toLowerChar c =
     (let n = (of_char c :: nat) in if 65 \<le> n \<and> n \<le> 90 then char_of (n + 32) else c)"

definition toLowerCase :: "string \<Rightarrow> string" where
  "toLowerCase s = map toLowerChar s"

text \<open>\<open>text.includes(w)\<close> (named \<open>includesStr\<close> here): \<open>w\<close> occurs in \<open>text\<close> as a contiguous run of characters.\<close>

primrec includesStr :: "string \<Rightarrow> string \<Rightarrow> bool" where
  "includesStr [] w = (w = [])"
| "includesStr (c # cs) w = (prefix w (c # cs) \<or> includesStr cs w)"

text \<open>
  The character class \<open>\w\<close> of a regular expression, and a pattern \<open>\bw\b\<close> for a word \<open>w\<close>
  that begins and ends with a word character: \<open>w\<close> occurs in the text with no word character
  right before it and none right after it. \<open>prev\<close> is the character before the current
  position, \<open>None\<close> at the start of the text.
\<close>

definition isWordChar :: "char \<Rightarrow> bool" where
  "isWordChar c =
     (let n = (of_char c :: nat) in
        (48 \<le> n \<and> n \<le> 57) \<or> (65 \<le> n \<and> n \<le> 90) \<or> n = 95 \<or> (97 \<le> n \<and> n \<le> 122))"

definition boundaryBefore :: "char option \<Rightarrow> bool" where
  "boundaryBefore prev = (case prev of None \<Rightarrow> True | Some p \<Rightarrow> \<not> isWordChar p)"

definition boundaryAfter :: "string \<Rightarrow> bool" where
  "boundaryAfter rest = (case rest of [] \<Rightarrow> True | c # _ \<Rightarrow> \<not> isWordChar c)"

fun matchesWord :: "string \<Rightarrow> char option \<Rightarrow> string \<Rightarrow> bool" where
  "matchesWord w prev [] = False"
| "matchesWord w prev (c # cs) =
     ((boundaryBefore prev \<and> prefix w (c # cs) \<and> boundaryAfter (drop (length w) (c # cs)))
      \<or> matchesWord w (Some c) cs)"

text \<open>
  The three regular expressions of \<open>initCar\<close>. The first and the last carry the flag \<open>i\<close>, so
  they are tested on the lower-cased text (their callers lower-case the name as well).
\<close>

definition bodyRegex :: "string \<Rightarrow> bool" where
  \<comment> \<open>\<^verbatim>\<open>/(\bbody\b|paint|carpaint|bodywork|car_body)/i\<close>\<close>
  "bodyRegex s =
     (let t = toLowerCase s in
        matchesWord ''body'' None t \<or> includesStr t ''paint'' \<or> includesStr t ''carpaint''
        \<or> includesStr t ''bodywork'' \<or> includesStr t ''car_body'')"

definition exclusionRegex :: "string \<Rightarrow> bool" where
  \<comment> \<open>\<^verbatim>\<open>/(glass|rim|tire|wheel|trim|logo|emblem|interior|seat|light|lamp)/\<close>\<close>
  "exclusionRegex s =
     list_ex (includesStr s)
       [''glass'', ''rim'', ''tire'', ''wheel'', ''trim'', ''logo'', ''emblem'', ''interior'',
        ''seat'', ''light'', ''lamp'']"

definition glassRegex :: "string \<Rightarrow> bool" where
  \<comment> \<open>\<^verbatim>\<open>/(glass|windshield|window)/i\<close>\<close>
  "glassRegex s =
     (let t = toLowerCase s in
        includesStr t ''glass'' \<or> includesStr t ''windshield'' \<or> includesStr t ''window'')"

section \<open>The scene graph and the part groups\<close>

text \<open>
  A node of the loaded model: its name, whether it is a mesh, and its children. An object is
  referred to by its position in the traversal of the model, which is unique for every node
  of the tree, as the object's address is in the program.
\<close>

datatype node = Node (name: string) (isMesh: bool) (children: "node list")

text \<open>
  Modelled from the spec: \<open>traverse\<close> and \<open>getObjectByName\<close> are methods of the rendering
  library (\<open>build/three.module.js\<close>), which is not among the sources. The spec has the scene
  graph as a ``hierarchical tree of nodes'', the groups in the ``traversal order of the input
  tree'' and the lookups as ``exact-name lookup''. The traversal here is the library's, a node
  and then the subtrees of its children in order, and a lookup returns the first node of the
  traversal that bears the name.
\<close>

fun traverse :: "node \<Rightarrow> node list" where
  "traverse (Node n m cs) = Node n m cs # concat (map traverse cs)"

definition objects :: "node \<Rightarrow> (nat \<times> node) list" where
  "objects root = enumerate 0 (traverse root)"

definition getObjectByName :: "node \<Rightarrow> string \<Rightarrow> (nat \<times> node) option" where
  "getObjectByName root n = find (\<lambda>(i, o'). name o' = n) (objects root)"

definition collectMeshesByNamePattern :: "node \<Rightarrow> (string \<Rightarrow> bool) \<Rightarrow> nat list" where
  "collectMeshesByNamePattern root regex =
     map fst (filter (\<lambda>(i, o'). isMesh o' \<and> regex (toLowerCase (name o'))) (objects root))"

definition uniquePush :: "nat list \<Rightarrow> nat \<Rightarrow> nat list" where
  "uniquePush arr item = (if item \<in> set arr then arr else arr @ [item])"

record carParts =
  body :: "nat list"
  rims :: "nat list"
  glass :: "nat list"
  doors :: "nat list"

definition emptyParts :: carParts where
  "emptyParts = \<lparr>body = [], rims = [], glass = [], doors = []\<rparr>"

text \<open>A lookup by name whose result is pushed when it exists and is a mesh.\<close>

definition pushNamedMesh :: "node \<Rightarrow> nat list \<Rightarrow> string \<Rightarrow> nat list" where
  "pushNamedMesh root arr n =
     (case getObjectByName root n of
        None \<Rightarrow> arr
      | Some (i, o') \<Rightarrow> if isMesh o' then uniquePush arr i else arr)"

definition pushNamed :: "node \<Rightarrow> nat list \<Rightarrow> string \<Rightarrow> nat list" where
  "pushNamed root arr n =
     (case getObjectByName root n of None \<Rightarrow> arr | Some (i, o') \<Rightarrow> uniquePush arr i)"

text \<open>The fallback traversal of step 3: every mesh whose lower-cased name has no exclusion keyword.\<close>

definition fallbackStep :: "nat list \<Rightarrow> nat \<times> node \<Rightarrow> nat list" where
  "fallbackStep arr io =
     (case io of (i, o') \<Rightarrow>
        if \<not> isMesh o' then arr
        else if \<not> exclusionRegex (toLowerCase (name o')) then uniquePush arr i else arr)"

definition collectBody :: "node \<Rightarrow> nat list \<Rightarrow> nat list" where
  "collectBody root b0 =
     (let b1 = pushNamedMesh root b0 ''body'';
          b2 = foldl uniquePush b1 (collectMeshesByNamePattern root bodyRegex)
      in if length b2 = 0 then foldl fallbackStep b2 (objects root) else b2)"

definition collectRims :: "node \<Rightarrow> nat list \<Rightarrow> nat list" where
  "collectRims root r0 =
     foldl (pushNamedMesh root) r0 [''rim_fl'', ''rim_fr'', ''rim_rr'', ''rim_rl'', ''trim'']"

definition collectGlass :: "node \<Rightarrow> nat list \<Rightarrow> nat list" where
  "collectGlass root g0 =
     pushNamedMesh root (foldl uniquePush g0 (collectMeshesByNamePattern root glassRegex)) ''glass''"

definition collectDoors :: "node \<Rightarrow> nat list" where
  "collectDoors root = pushNamed root (pushNamed root [] ''door_left'') ''door_right''"

text \<open>
  The part collection of \<open>initCar\<close> on the car model \<open>root\<close>, from the groups as they stand
  (\<^const>\<open>emptyParts\<close> when the page has just been loaded).
\<close>

definition collectParts :: "node \<Rightarrow> carParts \<Rightarrow> carParts" where
  "collectParts root parts =
     \<lparr>body = collectBody root (body parts),
      rims = collectRims root (rims parts),
      glass = collectGlass root (glass parts),
      doors = collectDoors root\<rparr>"


section \<open>The page: materials, lights, selectors and the conversation log\<close>

text \<open>
  Materials and lights are objects that the program shares by reference, so each lives at an
  address of a store: \<open>materials\<close> maps the address of a material to the object,
  \<open>lightVisible\<close> the address of a light to its \<open>visible\<close> flag. A material object has
  a name, a \<open>color\<close> property (\<open>None\<close> when it is absent or falsy) and the flag
  \<open>needsUpdate\<close>. A colour has a value and a property \<open>set\<close>, which is absent or falsy, or
  a function (the library's \<open>Color.set\<close>, which stores the value), or a truthy value that is
  not a function: \<open>setMeshColor\<close> tests it for truth and then calls it.
\<close>

datatype setProperty = NoSet | SetFunction | SetNotCallable

record color =
  hex :: nat
  setProp :: setProperty

record material =
  matName :: string
  matColor :: "color option"
  needsUpdate :: bool

text \<open>
  The \<open>material\<close> property of a mesh: one material reference or an array of them; a
  reference is \<open>None\<close> when it is \<open>null\<close> or \<open>undefined\<close>.
\<close>

datatype slot = Single "nat option" | Multi "nat option list"

record matlib =
  lib_main :: "nat list"
  lib_glass :: "nat list"

text \<open>
  A drop-down selector of the page: the values of its options and the index of the selected
  one, \<open>-1\<close> when none is. Reading \<open>value\<close> gives the selected option's value or the
  empty string; writing \<open>value\<close> selects the first option that has the value, or none.
\<close>

record select =
  options :: "string list"
  selectedIndex :: int

fun indexOf :: "string list \<Rightarrow> string \<Rightarrow> int" where
  "indexOf [] v = - 1"
| "indexOf (x # xs) v =
     (if x = v then 0 else (let r = indexOf xs v in if r < 0 then - 1 else r + 1))"

definition arrayGet :: "'a list \<Rightarrow> int \<Rightarrow> 'a option" where
  \<comment> \<open>\<open>arr[i]\<close>: \<open>undefined\<close> outside the array\<close>
  "arrayGet xs i = (if 0 \<le> i \<and> i < int (length xs) then Some (xs ! nat i) else None)"

definition getValue :: "select \<Rightarrow> string" where
  "getValue sel = (case arrayGet (options sel) (selectedIndex sel) of None \<Rightarrow> [] | Some v \<Rightarrow> v)"

definition setValue :: "string \<Rightarrow> select \<Rightarrow> select" where
  "setValue v sel = sel\<lparr>selectedIndex := indexOf (options sel) v\<rparr>"

definition setSelectedIndex :: "int \<Rightarrow> select \<Rightarrow> select" where
  "setSelectedIndex i sel =
     sel\<lparr>selectedIndex := (if 0 \<le> i \<and> i < int (length (options sel)) then i else - 1)\<rparr>"

definition addOption :: "string \<Rightarrow> select \<Rightarrow> select" where
  \<comment> \<open>\<open>menu.add(option)\<close>: the first option added to an empty selector becomes the selected one\<close>
  "addOption n sel =
     \<lparr>options = options sel @ [n],
      selectedIndex = (if options sel = [] then 0 else selectedIndex sel)\<rparr>"

datatype error = TypeError | ReferenceError

record app_state =
  carModel :: "node option"
  carParts :: carParts
  meshMaterial :: "nat \<Rightarrow> slot"
  materials :: "nat \<Rightarrow> material"
  materialsLib :: "matlib option"
  bodyMatSelect :: select
  rimMatSelect :: select
  glassMatSelect :: select
  lightingSelect :: select
  allLights :: "(string \<times> nat list) list"
  lightVisible :: "nat \<Rightarrow> bool"
  chatLog :: "(string \<times> string) list"

text \<open>\<open>addMessage\<close> appends a line to the log: the class name (the lower-cased sender) and the text.\<close>

definition addMessage :: "string \<Rightarrow> string \<Rightarrow> app_state \<Rightarrow> app_state" where
  "addMessage sender txt s = s\<lparr>chatLog := chatLog s @ [(toLowerCase sender, txt)]\<rparr>"

definition ensureCarReady :: "app_state \<Rightarrow> bool \<times> app_state" where
  "ensureCarReady s =
     (if carModel s = None \<or> length (body (carParts s)) = 0
      then (False, addMessage ''Bot'' ''Car model is still loading. Try again in a moment.'' s)
      else (True, s))"

subsection \<open>\<open>setMeshColor\<close>\<close>



subsection \<open>\<open>updateMaterials\<close> and \<open>updateLighting\<close>\<close>

definition assignMaterial :: "nat option \<Rightarrow> (nat \<Rightarrow> slot) \<Rightarrow> nat list \<Rightarrow> (nat \<Rightarrow> slot)" where
  \<comment> \<open>\<open>group.forEach((part) => (part.material = mat))\<close>\<close>
  "assignMaterial mat mm grp = foldl (\<lambda>f part. f(part := Single mat)) mm grp"

definition updateMaterials :: "app_state \<Rightarrow> error + app_state" where
  "updateMaterials s =
     (case materialsLib s of
        None \<Rightarrow> Inl TypeError
      | Some lib \<Rightarrow>
          (let bodyMat = arrayGet (lib_main lib) (selectedIndex (bodyMatSelect s));
               rimMat = arrayGet (lib_main lib) (selectedIndex (rimMatSelect s));
               glassMat = arrayGet (lib_glass lib) (selectedIndex (glassMatSelect s));
               m1 = assignMaterial bodyMat (meshMaterial s) (body (carParts s));
               m2 = assignMaterial rimMat m1 (rims (carParts s));
               m3 = assignMaterial glassMat m2 (glass (carParts s))
           in Inr (s\<lparr>meshMaterial := m3\<rparr>)))"

definition setVisible :: "bool \<Rightarrow> (nat \<Rightarrow> bool) \<Rightarrow> nat list \<Rightarrow> (nat \<Rightarrow> bool)" where
  \<comment> \<open>\<open>lights.forEach((light) => (light.visible = b))\<close>\<close>
  "setVisible b vis ls = foldl (\<lambda>v l. v(l := b)) vis ls"

text \<open>
  \<open>allLights\<close> is an object whose keys are the preset names, in the order they were written;
  \<open>allLights[mode]\<close> is the lookup of an own key.
\<close>

definition updateLighting :: "app_state \<Rightarrow> app_state" where
  "updateLighting s =
     (let mode = getValue (lightingSelect s);
          off = setVisible False (lightVisible s) (concat (map snd (allLights s)))
      in case (if mode \<noteq> ''none'' then map_of (allLights s) mode else None) of
           None \<Rightarrow> s\<lparr>lightVisible := off\<rparr>
         | Some ls \<Rightarrow> s\<lparr>lightVisible := setVisible True off ls\<rparr>)"


section \<open>The chatbot: \<open>handleCommand\<close>\<close>

text \<open>
  \<open>handleCommand\<close> returns nothing in the program; it reports through the log. The model
  returns, next to the new state, which \<open>return\<close> was reached: \<open>Applied\<close> with the line
  written to the log, or \<open>NotUnderstood\<close> for the fallback at the end. An exception is
  \<open>Inl\<close>.

  Each block of the function is one definition. A block gives \<open>None\<close> when control falls
  through to the next block, and \<open>Some\<close> of the result when it returns or throws.
\<close>

datatype outcome = Applied string | NotUnderstood

type_synonym result = "error + outcome \<times> app_state"

definition helpMessage :: string where
  \<open>helpMessage =
     ''I didn'' @ [CHR 0xC3, CHR 0xA2, CHR 0xE2, CHR 0x82, CHR 0xAC, CHR 0xE2, CHR 0x84, CHR 0xA2]
     @ ''t understand that. Try a command like "make body red" or "ambient light".''\<close>

definition findMaterial :: "string \<Rightarrow> app_state \<Rightarrow> nat list \<Rightarrow> nat option" where
  \<comment> \<open>the first material of the category whose lower-cased name occurs in the text\<close>
  "findMaterial txt s mats =
     find (\<lambda>m. includesStr txt (toLowerCase (matName (materials s m)))) mats"

definition bodyCommand :: "string \<Rightarrow> app_state \<Rightarrow> result option" where
  "bodyCommand txt s =
     (if includesStr txt ''body'' \<or> includesStr txt ''paint'' then
        (case materialsLib s of
           None \<Rightarrow> Some (Inl TypeError)
         | Some lib \<Rightarrow>
             (case findMaterial txt s (lib_main lib) of
                None \<Rightarrow> None
              | Some m \<Rightarrow>
                  Some (case updateMaterials
                               (s\<lparr>bodyMatSelect :=
                                    setValue (matName (materials s m)) (bodyMatSelect s)\<rparr>) of
                          Inl e \<Rightarrow> Inl e
                        | Inr s' \<Rightarrow>
                            Inr (Applied (''Body color set to '' @ matName (materials s m) @ ''.''),
                                 addMessage ''Bot''
                                   (''Body color set to '' @ matName (materials s m) @ ''.'') s'))))
      else None)"

definition rimCommand :: "string \<Rightarrow> app_state \<Rightarrow> result option" where
  "rimCommand txt s =
     (if includesStr txt ''rim'' \<or> includesStr txt ''details'' then
        (case materialsLib s of
           None \<Rightarrow> Some (Inl TypeError)
         | Some lib \<Rightarrow>
             (case findMaterial txt s (lib_main lib) of
                None \<Rightarrow> None
              | Some m \<Rightarrow>
                  Some (case updateMaterials
                               (s\<lparr>rimMatSelect :=
                                    setValue (matName (materials s m)) (rimMatSelect s)\<rparr>) of
                          Inl e \<Rightarrow> Inl e
                        | Inr s' \<Rightarrow>
                            Inr (Applied (''Rim color set to '' @ matName (materials s m) @ ''.''),
                                 addMessage ''Bot''
                                   (''Rim color set to '' @ matName (materials s m) @ ''.'') s'))))
      else None)"

definition glassCommand :: "string \<Rightarrow> app_state \<Rightarrow> result option" where
  "glassCommand txt s =
     (if includesStr txt ''glass'' then
        (case materialsLib s of
           None \<Rightarrow> Some (Inl TypeError)
         | Some lib \<Rightarrow>
             (case findMaterial txt s (lib_glass lib) of
                None \<Rightarrow> None
              | Some m \<Rightarrow>
                  Some (case updateMaterials
                               (s\<lparr>glassMatSelect :=
                                    setValue (matName (materials s m)) (glassMatSelect s)\<rparr>) of
                          Inl e \<Rightarrow> Inl e
                        | Inr s' \<Rightarrow>
                            Inr (Applied (''Glass color set to '' @ matName (materials s m) @ ''.''),
                                 addMessage ''Bot''
                                   (''Glass color set to '' @ matName (materials s m) @ ''.'') s'))))
      else None)"

definition lightingCommand :: "string \<Rightarrow> app_state \<Rightarrow> result option" where
  "lightingCommand txt s =
     (if includesStr txt ''light'' \<or> includesStr txt ''lighting'' then
        (case find (\<lambda>option. includesStr txt (toLowerCase option)) (map fst (allLights s)) of
           None \<Rightarrow> None
         | Some option \<Rightarrow>
             Some (Inr (Applied (''Lighting set to '' @ option @ ''.''),
                        addMessage ''Bot'' (''Lighting set to '' @ option @ ''.'')
                          (updateLighting
                             (s\<lparr>lightingSelect := setValue option (lightingSelect s)\<rparr>)))))
      else None)"

text \<open>
  \<open>handleCommand\<close> takes what the name \<open>openDoors\<close> is bound to as a parameter, a door
  action that returns the new state or throws. \<open>raw\<close> is \<open>None\<close> for \<open>null\<close> and
  \<open>undefined\<close>.
\<close>

definition handleCommand ::
  "(app_state \<Rightarrow> error + app_state) \<Rightarrow> string option \<Rightarrow> app_state \<Rightarrow> result" where
  "handleCommand openDoors raw s =
     (let txt = toLowerCase (case raw of None \<Rightarrow> [] | Some r \<Rightarrow> r) in
        if includesStr txt ''open'' \<and> includesStr txt ''door''
        then (case openDoors s of
                Inl e \<Rightarrow> Inl e
              | Inr s' \<Rightarrow> Inr (Applied ''Opening doors.'', addMessage ''Bot'' ''Opening doors.'' s'))
        else
          (case bodyCommand txt s of
             Some r \<Rightarrow> r
           | None \<Rightarrow>
               (case rimCommand txt s of
                  Some r \<Rightarrow> r
                | None \<Rightarrow>
                    (case glassCommand txt s of
                       Some r \<Rightarrow> r
                     | None \<Rightarrow>
                         (case lightingCommand txt s of
                            Some r \<Rightarrow> r
                          | None \<Rightarrow> Inr (NotUnderstood, addMessage ''Bot'' helpMessage s))))))"

text \<open>
  In \<open>main.js\<close> the name \<open>openDoors\<close> occurs once, in the call of \<open>handleCommand\<close>: the
  module neither defines nor imports it, so evaluating the call throws a \<open>ReferenceError\<close>.
\<close>

definition openDoors_unbound :: "app_state \<Rightarrow> error + app_state" where
  "openDoors_unbound s = Inl ReferenceError"

section \<open>The states of the page as it loads\<close>

text \<open>
  Modelled from the spec: the page's markup is not among the sources. Its three material
  selectors are ``each populated from the corresponding MaterialLibrary category in
  declaration order'', so they start empty, and its lighting selector is ``populated from
  LightingPresets keys plus a \<open>"none"\<close> sentinel''.
\<close>

definition emptySelect :: select where
  "emptySelect = \<lparr>options = [], selectedIndex = - 1\<rparr>"

definition lightingMenu :: select where
  "lightingMenu =
     \<lparr>options = [''none'', ''directional'', ''ambient'', ''night'', ''dark'', ''showroom''],
      selectedIndex = 0\<rparr>"

text \<open>The page starts with no model, empty part groups, no material library and no lights.\<close>

definition noMaterial :: material where
  "noMaterial = \<lparr>matName = [], matColor = None, needsUpdate = False\<rparr>"

definition startState :: app_state where
  "startState =
     \<lparr>carModel = None,
      carParts = emptyParts,
      meshMaterial = (\<lambda>_. Single None),
      materials = (\<lambda>_. noMaterial),
      materialsLib = None,
      bodyMatSelect = emptySelect,
      rimMatSelect = emptySelect,
      glassMatSelect = emptySelect,
      lightingSelect = lightingMenu,
      allLights = [],
      lightVisible = (\<lambda>_. False),
      chatLog = []\<rparr>"

text \<open>
  \<open>initLights\<close> creates seven lights, here at the addresses 0 to 6, files them under the five
  presets and makes each invisible.
\<close>

definition initLights :: "app_state \<Rightarrow> app_state" where
  "initLights s =
     (let presets = [(''directional'', [0]), (''ambient'', [1]), (''night'', [2]), (''dark'', [3]),
                     (''showroom'', [4, 5, 6])]
      in s\<lparr>allLights := presets,
            lightVisible := setVisible False (lightVisible s) (concat (map snd presets))\<rparr>)"

text \<open>
  \<open>initMaterials\<close> creates the six materials of the category \<open>main\<close> and the four of the
  category \<open>glass\<close>, here at the addresses 0 to 9.
\<close>

definition newMaterial :: "string \<Rightarrow> nat \<Rightarrow> material" where
  "newMaterial n c = \<lparr>matName = n, matColor = Some \<lparr>hex = c, setProp = SetFunction\<rparr>, needsUpdate = False\<rparr>"

definition builtMaterials :: "material list" where
  "builtMaterials =
     [newMaterial ''orange'' 0xff4400, newMaterial ''blue'' 0x001166, newMaterial ''red'' 0x990000,
      newMaterial ''black'' 0x000000, newMaterial ''white'' 0xffffff,
      newMaterial ''metallic'' 0x555555,
      newMaterial ''clear'' 0xffffff, newMaterial ''smoked'' 0x000000,
      newMaterial ''blue'' 0x001133, newMaterial ''tinted'' 0x333333]"

definition initMaterials :: "app_state \<Rightarrow> app_state" where
  "initMaterials s =
     s\<lparr>materials := (\<lambda>a. if a < length builtMaterials then builtMaterials ! a else materials s a),
       materialsLib := Some \<lparr>lib_main = [0, 1, 2, 3, 4, 5], lib_glass = [6, 7, 8, 9]\<rparr>\<rparr>"

definition initMaterialSelectionMenus :: "app_state \<Rightarrow> error + app_state" where
  "initMaterialSelectionMenus s =
     (case materialsLib s of
        None \<Rightarrow> Inl TypeError
      | Some lib \<Rightarrow>
          (let mainNames = map (\<lambda>m. matName (materials s m)) (lib_main lib);
               glassNames = map (\<lambda>m. matName (materials s m)) (lib_glass lib)
           in Inr (s\<lparr>bodyMatSelect :=
                        setSelectedIndex 3 (foldl (\<lambda>sel n. addOption n sel) (bodyMatSelect s) mainNames),
                      rimMatSelect :=
                        setSelectedIndex 5 (foldl (\<lambda>sel n. addOption n sel) (rimMatSelect s) mainNames),
                      glassMatSelect :=
                        setSelectedIndex 0 (foldl (\<lambda>sel n. addOption n sel) (glassMatSelect s) glassNames)\<rparr>)))"

text \<open>
  \<open>init\<close> runs \<open>initLights\<close> at once; when the sky box has arrived it starts loading the
  model and runs \<open>initMaterials\<close> and \<open>initMaterialSelectionMenus\<close>. \<open>loadingState\<close> is the
  page from then until the model arrives.
\<close>

definition loadingState :: app_state where
  "loadingState =
     (case initMaterialSelectionMenus (initMaterials (initLights startState)) of
        Inr s \<Rightarrow> s
      | Inl e \<Rightarrow> startState)"

text \<open>
  When the model has arrived \<open>initCar\<close> keeps it, adds the shadow plane (an unnamed mesh) as
  its last child, collects the parts and runs \<open>updateMaterials\<close>.
\<close>

fun addShadow :: "node \<Rightarrow> node" where
  "addShadow (Node n m cs) = Node n m (cs @ [Node [] True []])"

definition modelLoaded :: "node \<Rightarrow> app_state \<Rightarrow> error + app_state" where
  "modelLoaded root s =
     (let carModel' = addShadow root
      in updateMaterials
           (s\<lparr>carModel := Some carModel', carParts := collectParts carModel' (carParts s)\<rparr>))"

text \<open>A small model with the names the program looks for, and the page once it has arrived.\<close>

definition sampleModel :: node where
  "sampleModel =
     Node ''ferrari'' False
       [Node ''body'' True [], Node ''glass'' True [], Node ''rim_fl'' True [],
        Node ''trim'' True []]"

definition readyState :: app_state where
  "readyState = (case modelLoaded sampleModel loadingState of Inr s \<Rightarrow> s | Inl e \<Rightarrow> loadingState)"

section \<open>Evaluation of strings\<close>

lemmas string_eval =
  toLowerCase_def toLowerChar_def char_of_def bit_Suc_0_iff isWordChar_def
  boundaryBefore_def boundaryAfter_def

section \<open>The part collection\<close>

subsection \<open>Objects, \<open>uniquePush\<close> and the lookups\<close>

lemma in_objects_iff:
  "(i, x) \<in> set (objects root) \<longleftrightarrow> i < length (traverse root) \<and> x = traverse root ! i"
  by (auto simp: objects_def in_set_enumerate_eq)

lemma distinct_fst_objects: "distinct (map fst (objects root))"
  by (simp add: objects_def)

lemma objects_eq_map:
  "objects root = map (\<lambda>i. (i, traverse root ! i)) [0..<length (traverse root)]"
  unfolding objects_def
  by (rule nth_equalityI) (simp_all add: nth_enumerate_eq)

lemma set_uniquePush: "set (uniquePush arr i) = insert i (set arr)"
  by (auto simp: uniquePush_def)

lemma distinct_uniquePush: "distinct arr \<Longrightarrow> distinct (uniquePush arr i)"
  by (simp add: uniquePush_def)

lemma set_foldl_uniquePush: "set (foldl uniquePush arr xs) = set arr \<union> set xs"
  by (induction xs arbitrary: arr) (auto simp: set_uniquePush)

lemma distinct_foldl_uniquePush: "distinct arr \<Longrightarrow> distinct (foldl uniquePush arr xs)"
  by (induction xs arbitrary: arr) (simp_all add: distinct_uniquePush)

lemma foldl_uniquePush_fresh:
  "distinct xs \<Longrightarrow> set arr \<inter> set xs = {} \<Longrightarrow> foldl uniquePush arr xs = arr @ xs"
proof (induction xs arbitrary: arr)
  case Nil
  then show ?case by simp
next
  case (Cons x xs)
  from Cons.prems have fresh: "x \<notin> set arr" by auto
  then have step: "uniquePush arr x = arr @ [x]" by (simp add: uniquePush_def)
  from Cons.prems have "distinct xs" and "set (arr @ [x]) \<inter> set xs = {}" by auto
  then have "foldl uniquePush (arr @ [x]) xs = (arr @ [x]) @ xs" by (rule Cons.IH)
  with step show ?case by simp
qed

lemma collectMeshes_eq:
  "collectMeshesByNamePattern root regex =
     [i \<leftarrow> [0..<length (traverse root)].
        isMesh (traverse root ! i) \<and> regex (toLowerCase (name (traverse root ! i)))]"
  by (simp add: collectMeshesByNamePattern_def objects_eq_map filter_map comp_def)

lemma distinct_collectMeshes: "distinct (collectMeshesByNamePattern root regex)"
  by (simp add: collectMeshes_eq)

lemma getObjectByName_Some:
  "getObjectByName root n = Some (i, x) \<Longrightarrow>
     i < length (traverse root) \<and> x = traverse root ! i \<and> name x = n"
proof -
  assume "getObjectByName root n = Some (i, x)"
  then have f: "find (\<lambda>(i, o'). name o' = n) (objects root) = Some (i, x)"
    by (simp add: getObjectByName_def)
  then obtain k where "k < length (objects root)" and "objects root ! k = (i, x)" and "name x = n"
    by (auto simp: find_Some_iff)
  then have "(i, x) \<in> set (objects root)" and "name x = n"
    by (auto dest: nth_mem)
  then show ?thesis by (simp add: in_objects_iff)
qed

lemma set_pushNamedMesh:
  "set (pushNamedMesh root arr n) \<subseteq>
     set arr \<union> {i. i < length (traverse root) \<and> isMesh (traverse root ! i)
                    \<and> name (traverse root ! i) = n}"
  by (auto simp: pushNamedMesh_def set_uniquePush split: option.splits dest: getObjectByName_Some)

lemma pushNamedMesh_mono: "set arr \<subseteq> set (pushNamedMesh root arr n)"
  by (auto simp: pushNamedMesh_def set_uniquePush split: option.splits)

lemma distinct_pushNamedMesh: "distinct arr \<Longrightarrow> distinct (pushNamedMesh root arr n)"
  by (auto simp: pushNamedMesh_def distinct_uniquePush split: option.splits)

subsection \<open>The body group\<close>

lemma foldl_fallbackStep:
  "foldl fallbackStep arr xs =
     foldl uniquePush arr
       (map fst (filter (\<lambda>(i, x). isMesh x \<and> \<not> exclusionRegex (toLowerCase (name x))) xs))"
proof (induction xs arbitrary: arr)
  case Nil
  then show ?case by simp
next
  case (Cons p xs)
  then show ?case by (cases p) (simp add: fallbackStep_def)
qed

lemma fallback_eq:
  "foldl fallbackStep [] (objects root) =
     collectMeshesByNamePattern root (\<lambda>n. \<not> exclusionRegex n)"
  by (simp add: foldl_fallbackStep collectMeshesByNamePattern_def foldl_uniquePush_fresh
      distinct_map_filter distinct_fst_objects)

lemma bodyRegex_body: "bodyRegex (toLowerCase ''body'')"
  by (simp add: bodyRegex_def string_eval)


lemma set_collectMeshes:
  "set (collectMeshesByNamePattern root regex) =
     {i. i < length (traverse root) \<and> isMesh (traverse root ! i)
         \<and> regex (toLowerCase (name (traverse root ! i)))}"
  by (auto simp: collectMeshes_eq)

lemma body_steps_1_2:
  "set (foldl uniquePush (pushNamedMesh root [] ''body'')
          (collectMeshesByNamePattern root bodyRegex)) =
     set (collectMeshesByNamePattern root bodyRegex)"
proof -
  have "set (pushNamedMesh root [] ''body'') \<subseteq> set (collectMeshesByNamePattern root bodyRegex)"
    using set_pushNamedMesh [of root "[]" "''body''"] bodyRegex_body
    by (auto simp: set_collectMeshes)
  then show ?thesis by (auto simp: set_foldl_uniquePush)
qed

lemma body_steps_1_2_empty:
  "foldl uniquePush (pushNamedMesh root [] ''body'')
          (collectMeshesByNamePattern root bodyRegex) = []
   \<longleftrightarrow> collectMeshesByNamePattern root bodyRegex = []"
  using body_steps_1_2 [of root] by (metis set_empty)

lemma collectBody_fallback:
  assumes "collectMeshesByNamePattern root bodyRegex = []"
  shows "collectBody root [] = collectMeshesByNamePattern root (\<lambda>n. \<not> exclusionRegex n)"
proof -
  have "foldl uniquePush (pushNamedMesh root [] ''body'')
          (collectMeshesByNamePattern root bodyRegex) = []"
    using assms by (rule body_steps_1_2_empty [THEN iffD2])
  then show ?thesis by (simp add: collectBody_def fallback_eq)
qed

lemma collectBody_matched:
  assumes "collectMeshesByNamePattern root bodyRegex \<noteq> []"
  shows "set (collectBody root []) = set (collectMeshesByNamePattern root bodyRegex)"
proof -
  have "foldl uniquePush (pushNamedMesh root [] ''body'')
          (collectMeshesByNamePattern root bodyRegex) \<noteq> []"
    using assms body_steps_1_2_empty [of root] by blast
  then have "collectBody root [] = foldl uniquePush (pushNamedMesh root [] ''body'')
          (collectMeshesByNamePattern root bodyRegex)"
    by (simp add: collectBody_def Let_def)
  then show ?thesis by (simp only: body_steps_1_2)
qed

lemma set_collectBody:
  "set (collectBody root []) =
     (if collectMeshesByNamePattern root bodyRegex = []
      then set (collectMeshesByNamePattern root (\<lambda>n. \<not> exclusionRegex n))
      else set (collectMeshesByNamePattern root bodyRegex))"
  by (simp add: collectBody_fallback collectBody_matched)

lemma distinct_collectBody: "distinct (collectBody root [])"
  by (simp add: collectBody_def Let_def fallback_eq distinct_collectMeshes
      distinct_foldl_uniquePush distinct_pushNamedMesh)

subsection \<open>The rims and the glass\<close>

lemma distinct_foldl_pushNamedMesh:
  "distinct arr \<Longrightarrow> distinct (foldl (pushNamedMesh root) arr ns)"
  by (induction ns arbitrary: arr) (simp_all add: distinct_pushNamedMesh)

lemma set_foldl_pushNamedMesh:
  "set (foldl (pushNamedMesh root) arr ns) \<subseteq>
     set arr \<union> {i. i < length (traverse root) \<and> isMesh (traverse root ! i)
                    \<and> name (traverse root ! i) \<in> set ns}"
proof (induction ns arbitrary: arr)
  case Nil
  then show ?case by simp
next
  case (Cons n ns)
  show ?case
    using Cons.IH [of "pushNamedMesh root arr n"] set_pushNamedMesh [of root arr n]
    by auto
qed

lemma set_collectRims:
  "set (collectRims root []) \<subseteq>
     {i. i < length (traverse root) \<and> isMesh (traverse root ! i)
         \<and> name (traverse root ! i) \<in> {''rim_fl'', ''rim_fr'', ''rim_rr'', ''rim_rl'', ''trim''}}"
  using set_foldl_pushNamedMesh [of root "[]" "[''rim_fl'', ''rim_fr'', ''rim_rr'', ''rim_rl'', ''trim'']"]
  by (simp add: collectRims_def)

lemma distinct_collectRims: "distinct (collectRims root [])"
  unfolding collectRims_def by (rule distinct_foldl_pushNamedMesh) simp

lemma glassRegex_glass: "glassRegex (toLowerCase ''glass'')"
  by (simp add: glassRegex_def string_eval)

lemma set_collectGlass:
  "set (collectGlass root []) = set (collectMeshesByNamePattern root glassRegex)"
proof -
  have "set (pushNamedMesh root (foldl uniquePush [] (collectMeshesByNamePattern root glassRegex)) ''glass'')
        \<subseteq> set (collectMeshesByNamePattern root glassRegex)"
    using set_pushNamedMesh [of root "foldl uniquePush [] (collectMeshesByNamePattern root glassRegex)" "''glass''"]
      glassRegex_glass
    by (auto simp: set_collectMeshes set_foldl_uniquePush)
  moreover have "set (collectMeshesByNamePattern root glassRegex)
        \<subseteq> set (pushNamedMesh root (foldl uniquePush [] (collectMeshesByNamePattern root glassRegex)) ''glass'')"
    using pushNamedMesh_mono [of "foldl uniquePush [] (collectMeshesByNamePattern root glassRegex)" root "''glass''"]
    by (simp add: set_foldl_uniquePush)
  ultimately show ?thesis by (simp add: collectGlass_def)
qed

lemma distinct_collectGlass: "distinct (collectGlass root [])"
  by (simp add: collectGlass_def distinct_pushNamedMesh distinct_foldl_uniquePush)

lemma rim_names_no_rule:
  "n \<in> {''rim_fl'', ''rim_fr'', ''rim_rr'', ''rim_rl'', ''trim''} \<Longrightarrow>
     \<not> bodyRegex (toLowerCase n) \<and> exclusionRegex (toLowerCase n) \<and> \<not> glassRegex (toLowerCase n)"
  by (auto simp: bodyRegex_def exclusionRegex_def glassRegex_def string_eval)


subsection \<open>The claims about the part collection\<close>

lemmas parts_eval =
  collectParts_def collectBody_def collectRims_def collectGlass_def collectDoors_def
  emptyParts_def pushNamedMesh_def pushNamed_def getObjectByName_def objects_def
  collectMeshesByNamePattern_def fallbackStep_def uniquePush_def
  bodyRegex_def exclusionRegex_def glassRegex_def string_eval

text \<open>
  C6, as amended: every mesh of the model that is named exactly \<open>body\<close>, at whatever depth,
  is in the body group after the part collection, whatever the groups held before. Step 1
  looks the name up and keeps the object only if it is a mesh; step 2 collects every mesh
  whose name matches the pattern, and the name \<open>body\<close> does.
\<close>

theorem mesh_named_body_in_body:
  assumes "i < length (traverse root)"
    and "isMesh (traverse root ! i)"
    and "name (traverse root ! i) = ''body''"
  shows "i \<in> set (body (collectParts root parts))"
proof -
  let ?b1 = "pushNamedMesh root (body parts) ''body''"
  let ?b2 = "foldl uniquePush ?b1 (collectMeshesByNamePattern root bodyRegex)"
  have "i \<in> set (collectMeshesByNamePattern root bodyRegex)"
    using assms bodyRegex_body by (simp add: set_collectMeshes)
  then have mem: "i \<in> set ?b2" by (simp add: set_foldl_uniquePush)
  then have "?b2 \<noteq> []" by auto
  then have "collectBody root (body parts) = ?b2" by (simp add: collectBody_def Let_def)
  with mem show ?thesis by (simp add: collectParts_def)
qed

text \<open>The model \<open>car > body, hood\<close>, both meshes: the mesh \<open>body\<close> is object 1.\<close>

theorem mesh_named_body_in_body_witness:
  "(1::nat) < length (traverse (Node ''car'' False [Node ''body'' True [], Node ''hood'' True []]))
   \<and> isMesh (traverse (Node ''car'' False [Node ''body'' True [], Node ''hood'' True []]) ! 1)
   \<and> name (traverse (Node ''car'' False [Node ''body'' True [], Node ''hood'' True []]) ! 1) = ''body''
   \<and> 1 \<in> set (body (collectParts (Node ''car'' False [Node ''body'' True [], Node ''hood'' True []]) emptyParts))"
  using mesh_named_body_in_body
    [of 1 "Node ''car'' False [Node ''body'' True [], Node ''hood'' True []]" emptyParts]
  by simp

text \<open>
  C6 as it was stated fails where the node named \<open>body\<close> is not a mesh: in the model
  \<open>car > body > chassis\<close>, where only \<open>chassis\<close> is a mesh, object 1 bears the name and
  the body group is the fallback's \<open>[chassis]\<close>.
\<close>

theorem group_named_body_not_in_body:
  "name (traverse (Node ''car'' False [Node ''body'' False [Node ''chassis'' True []]]) ! 1) = ''body''
   \<and> body (collectParts (Node ''car'' False [Node ''body'' False [Node ''chassis'' True []]]) emptyParts) = [2]
   \<and> 1 \<notin> set (body (collectParts (Node ''car'' False [Node ''body'' False [Node ''chassis'' True []]]) emptyParts))"
  by (simp add: parts_eval)

text \<open>
  C5: from empty groups, when no mesh of the model has a name that the body pattern matches
  (then the exact-name rule of step 1 finds no mesh either, since the pattern matches the name
  \<open>body\<close>), the body group is exactly the meshes whose lower-cased name has no exclusion
  keyword, in traversal order. When some mesh matches, the fallback does not run: the body
  group is exactly the set of the meshes that the pattern matches.
\<close>

theorem fallback_body_group:
  "((\<forall>x\<in>set (traverse root). isMesh x \<longrightarrow> \<not> bodyRegex (toLowerCase (name x))) \<longrightarrow>
      body (collectParts root emptyParts) =
        [i \<leftarrow> [0..<length (traverse root)].
           isMesh (traverse root ! i) \<and> \<not> exclusionRegex (toLowerCase (name (traverse root ! i)))])
   \<and> ((\<exists>x\<in>set (traverse root). isMesh x \<and> bodyRegex (toLowerCase (name x))) \<longrightarrow>
      set (body (collectParts root emptyParts)) =
        {i. i < length (traverse root) \<and> isMesh (traverse root ! i)
            \<and> bodyRegex (toLowerCase (name (traverse root ! i)))})"
proof (intro conjI impI)
  assume none: "\<forall>x\<in>set (traverse root). isMesh x \<longrightarrow> \<not> bodyRegex (toLowerCase (name x))"
  then have "set (collectMeshesByNamePattern root bodyRegex) = {}"
    by (auto simp: set_collectMeshes)
  then have "collectMeshesByNamePattern root bodyRegex = []" by simp
  then have "collectBody root [] = collectMeshesByNamePattern root (\<lambda>n. \<not> exclusionRegex n)"
    by (rule collectBody_fallback)
  then show "body (collectParts root emptyParts) =
        [i \<leftarrow> [0..<length (traverse root)].
           isMesh (traverse root ! i) \<and> \<not> exclusionRegex (toLowerCase (name (traverse root ! i)))]"
    by (simp add: collectParts_def emptyParts_def collectMeshes_eq)
next
  assume "\<exists>x\<in>set (traverse root). isMesh x \<and> bodyRegex (toLowerCase (name x))"
  then obtain i where "i < length (traverse root)" and "isMesh (traverse root ! i)"
    and "bodyRegex (toLowerCase (name (traverse root ! i)))"
    by (auto simp: in_set_conv_nth)
  then have "i \<in> set (collectMeshesByNamePattern root bodyRegex)"
    by (simp add: set_collectMeshes)
  then have "collectMeshesByNamePattern root bodyRegex \<noteq> []" by auto
  then have "set (collectBody root []) = set (collectMeshesByNamePattern root bodyRegex)"
    by (rule collectBody_matched)
  then show "set (body (collectParts root emptyParts)) =
        {i. i < length (traverse root) \<and> isMesh (traverse root ! i)
            \<and> bodyRegex (toLowerCase (name (traverse root ! i)))}"
    by (simp add: collectParts_def emptyParts_def set_collectMeshes)
qed

text \<open>
  Two models: \<open>car > chassis, glass_front, hood\<close>, where nothing matches and the fallback
  takes \<open>chassis\<close> and \<open>hood\<close>; and \<open>car > car_paint, hood\<close>, where \<open>car_paint\<close> matches
  and \<open>hood\<close> is left out.
\<close>

theorem fallback_body_group_witness:
  "\<not> (\<exists>x\<in>set (traverse (Node ''car'' False
          [Node ''chassis'' True [], Node ''glass_front'' True [], Node ''hood'' True []])).
        isMesh x \<and> bodyRegex (toLowerCase (name x)))
   \<and> body (collectParts (Node ''car'' False
          [Node ''chassis'' True [], Node ''glass_front'' True [], Node ''hood'' True []]) emptyParts)
       = [1, 3]
   \<and> (\<exists>x\<in>set (traverse (Node ''car'' False [Node ''car_paint'' True [], Node ''hood'' True []])).
        isMesh x \<and> bodyRegex (toLowerCase (name x)))
   \<and> set (body (collectParts (Node ''car'' False
          [Node ''car_paint'' True [], Node ''hood'' True []]) emptyParts)) = {1}"
proof -
  let ?w1 = "Node ''car'' False
          [Node ''chassis'' True [], Node ''glass_front'' True [], Node ''hood'' True []]"
  let ?w2 = "Node ''car'' False [Node ''car_paint'' True [], Node ''hood'' True []]"
  have h1: "\<forall>x\<in>set (traverse ?w1). isMesh x \<longrightarrow> \<not> bodyRegex (toLowerCase (name x))"
    by (simp add: bodyRegex_def string_eval)
  have h2: "\<exists>x\<in>set (traverse ?w2). isMesh x \<and> bodyRegex (toLowerCase (name x))"
    by (simp add: bodyRegex_def string_eval)
  from h1 fallback_body_group [of ?w1]
  have "body (collectParts ?w1 emptyParts) =
        [i \<leftarrow> [0..<length (traverse ?w1)].
           isMesh (traverse ?w1 ! i) \<and> \<not> exclusionRegex (toLowerCase (name (traverse ?w1 ! i)))]"
    by blast
  then have c1: "body (collectParts ?w1 emptyParts) = [1, 3]"
    by (simp add: upt_rec exclusionRegex_def string_eval)
  from h2 fallback_body_group [of ?w2]
  have "set (body (collectParts ?w2 emptyParts)) =
        {i. i < length (traverse ?w2) \<and> isMesh (traverse ?w2 ! i)
            \<and> bodyRegex (toLowerCase (name (traverse ?w2 ! i)))}"
    by blast
  also have "\<dots> = {1}"
    by (auto simp: less_Suc_eq bodyRegex_def string_eval numeral_2_eq_2 numeral_3_eq_3)
  finally have c2: "set (body (collectParts ?w2 emptyParts)) = {1}" .
  from h1 h2 c1 c2 show ?thesis by blast
qed

text \<open>
  C4, as amended: from empty groups, no group lists an object twice, and no object of the rims
  is in the body group or in the glass group. The body and the glass group are not kept
  apart: an object of the body group is in the glass group as well exactly when the glass
  pattern matches its name.
\<close>

theorem rims_disjoint_groups_distinct:
  "distinct (body (collectParts root emptyParts))
   \<and> distinct (rims (collectParts root emptyParts))
   \<and> distinct (glass (collectParts root emptyParts))
   \<and> set (rims (collectParts root emptyParts)) \<inter> set (body (collectParts root emptyParts)) = {}
   \<and> set (rims (collectParts root emptyParts)) \<inter> set (glass (collectParts root emptyParts)) = {}
   \<and> set (body (collectParts root emptyParts)) \<inter> set (glass (collectParts root emptyParts)) =
       {i \<in> set (body (collectParts root emptyParts)).
          glassRegex (toLowerCase (name (traverse root ! i)))}"
proof -
  have d: "distinct (collectBody root [])" "distinct (collectRims root [])"
    "distinct (collectGlass root [])"
    by (simp_all add: distinct_collectBody distinct_collectGlass distinct_collectRims)
  have rb: "set (collectRims root []) \<inter> set (collectBody root []) = {}"
    using set_collectRims [of root] rim_names_no_rule
    by (auto simp: set_collectBody set_collectMeshes split: if_splits)
  have rg: "set (collectRims root []) \<inter> set (collectGlass root []) = {}"
    using set_collectRims [of root] rim_names_no_rule
    by (auto simp: set_collectGlass set_collectMeshes)
  have bg: "set (collectBody root []) \<inter> set (collectGlass root []) =
       {i \<in> set (collectBody root []). glassRegex (toLowerCase (name (traverse root ! i)))}"
    by (auto simp: set_collectBody set_collectGlass set_collectMeshes split: if_splits)
  from d rb rg bg show ?thesis by (simp add: collectParts_def emptyParts_def)
qed

text \<open>
  C4 as it was stated fails on a mesh whose name matches a body rule and a glass rule: in the
  model \<open>car > paint_glass\<close> the mesh is object 1, and it is in both groups.
\<close>

theorem body_glass_overlap:
  "1 \<in> set (body (collectParts (Node ''car'' False [Node ''paint_glass'' True []]) emptyParts))
   \<and> 1 \<in> set (glass (collectParts (Node ''car'' False [Node ''paint_glass'' True []]) emptyParts))"
  by (simp add: parts_eval)

section \<open>The page and the chatbot\<close>

lemmas page_eval =
  loadingState_def initMaterialSelectionMenus_def initMaterials_def initLights_def startState_def
  builtMaterials_def newMaterial_def setSelectedIndex_def addOption_def setVisible_def
  emptyParts_def emptySelect_def lightingMenu_def Let_def

lemmas command_eval =
  handleCommand_def bodyCommand_def rimCommand_def glassCommand_def lightingCommand_def
  findMaterial_def updateMaterials_def updateLighting_def assignMaterial_def setValue_def
  getValue_def addMessage_def arrayGet_def setVisible_def Let_def

subsection \<open>The page while the model loads, and once it has arrived\<close>

lemma loadingState_fields:
  "carModel loadingState = None"
  "carParts loadingState = emptyParts"
  "materialsLib loadingState = Some \<lparr>lib_main = [0, 1, 2, 3, 4, 5], lib_glass = [6, 7, 8, 9]\<rparr>"
  "bodyMatSelect loadingState =
     \<lparr>options = [''orange'', ''blue'', ''red'', ''black'', ''white'', ''metallic''], selectedIndex = 3\<rparr>"
  "rimMatSelect loadingState =
     \<lparr>options = [''orange'', ''blue'', ''red'', ''black'', ''white'', ''metallic''], selectedIndex = 5\<rparr>"
  "glassMatSelect loadingState =
     \<lparr>options = [''clear'', ''smoked'', ''blue'', ''tinted''], selectedIndex = 0\<rparr>"
  "lightingSelect loadingState =
     \<lparr>options = [''none'', ''directional'', ''ambient'', ''night'', ''dark'', ''showroom''],
      selectedIndex = 0\<rparr>"
  "allLights loadingState =
     [(''directional'', [0]), (''ambient'', [1]), (''night'', [2]), (''dark'', [3]),
      (''showroom'', [4, 5, 6])]"
  "lightVisible loadingState l = False"
  "chatLog loadingState = []"
  "meshMaterial loadingState p = Single None"
  by (simp_all add: page_eval)

lemma loadingState_names:
  "map (\<lambda>m. matName (materials loadingState m)) [0, 1, 2, 3, 4, 5, 6, 7, 8, 9] =
     [''orange'', ''blue'', ''red'', ''black'', ''white'', ''metallic'',
      ''clear'', ''smoked'', ''blue'', ''tinted'']"
  by (simp add: page_eval)

lemma readyState_eq:
  "readyState =
     loadingState\<lparr>carModel := Some (addShadow sampleModel),
       carParts := \<lparr>body = [1], rims = [3, 4], glass = [2], doors = []\<rparr>,
       meshMaterial := meshMaterial readyState\<rparr>"
  by (simp add: readyState_def modelLoaded_def updateMaterials_def loadingState_fields
      sampleModel_def parts_eval Let_def)

lemma readyState_meshMaterial:
  "meshMaterial readyState 1 = Single (Some 3)"
  "meshMaterial readyState 2 = Single (Some 6)"
  "meshMaterial readyState 3 = Single (Some 5)"
  "meshMaterial readyState 4 = Single (Some 5)"
  "meshMaterial readyState 5 = Single None"
  by (simp_all add: readyState_def modelLoaded_def updateMaterials_def loadingState_fields
      sampleModel_def parts_eval Let_def assignMaterial_def arrayGet_def)

lemma readyState_fields:
  "carModel readyState = Some (addShadow sampleModel)"
  "carParts readyState = \<lparr>body = [1], rims = [3, 4], glass = [2], doors = []\<rparr>"
  "materialsLib readyState = materialsLib loadingState"
  "materials readyState = materials loadingState"
  "bodyMatSelect readyState = bodyMatSelect loadingState"
  "rimMatSelect readyState = rimMatSelect loadingState"
  "glassMatSelect readyState = glassMatSelect loadingState"
  "lightingSelect readyState = lightingSelect loadingState"
  "allLights readyState = allLights loadingState"
  "lightVisible readyState = lightVisible loadingState"
  "chatLog readyState = chatLog loadingState"
  by (subst readyState_eq, simp)+


subsection \<open>Containment and lower case\<close>

lemma includesStr_sublist: "includesStr t w \<longleftrightarrow> sublist w t"
  by (induction t) (simp_all add: sublist_Cons_right)

lemma toLowerCase_includes:
  assumes "includesStr raw w" and "toLowerCase w = w"
  shows "includesStr (toLowerCase raw) w"
proof -
  from assms(1) have "sublist w raw" by (simp add: includesStr_sublist)
  then have "sublist (map toLowerChar w) (map toLowerChar raw)" by (rule map_mono_sublist)
  with assms(2) show ?thesis by (simp add: includesStr_sublist toLowerCase_def)
qed

lemma toLowerCase_Bot: "toLowerCase ''Bot'' = ''bot''"
  by (simp add: string_eval)

subsection \<open>The door command\<close>

text \<open>
  C3: a text with \<open>open\<close> and \<open>door\<close> does take the first branch of \<open>handleCommand\<close>, before
  any material or lighting keyword is looked at, but the branch calls \<open>openDoors\<close>, which the
  module does not have. On \<open>open the doors please\<close>, and on a door command that also names the
  body and a material, the call throws: no door action runs and no line is logged.
\<close>

theorem door_command_throws:
  "includesStr (toLowerCase ''open the doors please'') ''open''
   \<and> includesStr (toLowerCase ''open the doors please'') ''door''
   \<and> handleCommand openDoors_unbound (Some ''open the doors please'') readyState =
       Inl ReferenceError
   \<and> handleCommand openDoors_unbound (Some ''open the doors please and paint the body red'')
         readyState = Inl ReferenceError"
  by (simp add: handleCommand_def openDoors_unbound_def string_eval)

subsection \<open>The empty command\<close>

text \<open>
  C10: for \<open>null\<close>, \<open>undefined\<close> and the empty string the text is the empty string, no
  block applies, and the only change of the state is the help line appended to the log.
\<close>

theorem empty_input_not_understood:
  "handleCommand openDoors None s =
     Inr (NotUnderstood, s\<lparr>chatLog := chatLog s @ [(''bot'', helpMessage)]\<rparr>)
   \<and> handleCommand openDoors (Some []) s =
     Inr (NotUnderstood, s\<lparr>chatLog := chatLog s @ [(''bot'', helpMessage)]\<rparr>)"
  by (simp add: handleCommand_def bodyCommand_def rimCommand_def glassCommand_def
      lightingCommand_def addMessage_def string_eval)

subsection \<open>A body keyword without a material name\<close>

text \<open>
  C1, as amended: let the material library be built, and let the lower-cased text contain
  \<open>body\<close> or \<open>paint\<close>, the name of no material of the main category, and not both \<open>open\<close>
  and \<open>door\<close>. Then the body block selects nothing and falls through, and so does the rim
  block, which scans the same category; the command is answered by the glass block if it
  applies, else by the lighting block if it applies, and only otherwise by \<open>NotUnderstood\<close>
  with nothing but the help line added to the state.
\<close>

theorem body_keyword_without_material:
  assumes "materialsLib s = Some lib"
    and "includesStr (toLowerCase raw) ''body'' \<or> includesStr (toLowerCase raw) ''paint''"
    and "\<forall>m\<in>set (lib_main lib).
           \<not> includesStr (toLowerCase raw) (toLowerCase (matName (materials s m)))"
    and "\<not> (includesStr (toLowerCase raw) ''open'' \<and> includesStr (toLowerCase raw) ''door'')"
  shows "bodyCommand (toLowerCase raw) s = None
     \<and> rimCommand (toLowerCase raw) s = None
     \<and> handleCommand openDoors (Some raw) s =
         (case glassCommand (toLowerCase raw) s of
            Some r \<Rightarrow> r
          | None \<Rightarrow>
              (case lightingCommand (toLowerCase raw) s of
                 Some r \<Rightarrow> r
               | None \<Rightarrow> Inr (NotUnderstood, addMessage ''Bot'' helpMessage s)))"
proof -
  have f: "findMaterial (toLowerCase raw) s (lib_main lib) = None"
    using assms(3) by (simp add: findMaterial_def find_None_iff)
  have b: "bodyCommand (toLowerCase raw) s = None"
    using assms(1) f by (simp add: bodyCommand_def)
  have r: "rimCommand (toLowerCase raw) s = None"
    using assms(1) f by (simp add: rimCommand_def)
  from assms(4)
  have nd: "(includesStr (toLowerCase raw) ''open'' \<and> includesStr (toLowerCase raw) ''door'') = False"
    by simp
  show ?thesis by (simp add: handleCommand_def Let_def b r nd)
qed

text \<open>\<open>Paint it purple\<close>: no block applies, and the answer is the help line.\<close>

theorem body_keyword_without_material_witness:
  "materialsLib readyState = Some \<lparr>lib_main = [0, 1, 2, 3, 4, 5], lib_glass = [6, 7, 8, 9]\<rparr>
   \<and> includesStr (toLowerCase ''Paint it purple'') ''paint''
   \<and> \<not> (\<exists>m\<in>set [0, 1, 2, 3, 4, 5].
          includesStr (toLowerCase ''Paint it purple'') (toLowerCase (matName (materials readyState m))))
   \<and> handleCommand Inr (Some ''Paint it purple'') readyState =
       Inr (NotUnderstood, addMessage ''Bot'' helpMessage readyState)"
proof -
  let ?lib = "\<lparr>lib_main = [0, 1, 2, 3, 4, 5], lib_glass = [6, 7, 8, 9]\<rparr>"
  have h1: "materialsLib readyState = Some ?lib"
    by (simp add: readyState_fields loadingState_fields)
  have h2: "includesStr (toLowerCase ''Paint it purple'') ''body''
            \<or> includesStr (toLowerCase ''Paint it purple'') ''paint''"
    by (simp add: string_eval)
  have h3: "\<forall>m\<in>set (lib_main ?lib).
      \<not> includesStr (toLowerCase ''Paint it purple'') (toLowerCase (matName (materials readyState m)))"
    using loadingState_names by (simp add: readyState_fields string_eval)
  have h4: "\<not> (includesStr (toLowerCase ''Paint it purple'') ''open''
               \<and> includesStr (toLowerCase ''Paint it purple'') ''door'')"
    by (simp add: string_eval)
  have g: "glassCommand (toLowerCase ''Paint it purple'') readyState = None"
    by (simp add: glassCommand_def string_eval)
  have l: "lightingCommand (toLowerCase ''Paint it purple'') readyState = None"
    by (simp add: lightingCommand_def string_eval)
  from body_keyword_without_material [OF h1 h2 h3 h4, of Inr] g l
  have "handleCommand Inr (Some ''Paint it purple'') readyState =
       Inr (NotUnderstood, addMessage ''Bot'' helpMessage readyState)"
    by simp
  with h1 h2 h3 show ?thesis by (simp add: string_eval)
qed

text \<open>
  C1 as it was stated fails on \<open>paint the glass smoked\<close>: the text contains \<open>paint\<close> and no
  name of the main category, and the glass block answers it: the glass selector moves from
  \<open>clear\<close> to \<open>smoked\<close> and the glass mesh gets the new material.
\<close>

theorem body_keyword_falls_through:
  "includesStr (toLowerCase ''paint the glass smoked'') ''paint''
   \<and> findMaterial (toLowerCase ''paint the glass smoked'') readyState [0, 1, 2, 3, 4, 5] = None
   \<and> (case handleCommand Inr (Some ''paint the glass smoked'') readyState of
        Inl e \<Rightarrow> False
      | Inr (out, s') \<Rightarrow>
          out = Applied ''Glass color set to smoked.''
          \<and> selectedIndex (glassMatSelect readyState) = 0
          \<and> selectedIndex (glassMatSelect s') = 1
          \<and> meshMaterial readyState 2 = Single (Some 6)
          \<and> meshMaterial s' 2 = Single (Some 7)
          \<and> chatLog s' = chatLog readyState @ [(''bot'', ''Glass color set to smoked.'')])"
  using loadingState_names
  by (simp add: command_eval readyState_fields readyState_meshMaterial loadingState_fields
      string_eval)

subsection \<open>A command while the model is loading\<close>

text \<open>
  C2: \<open>ensureCarReady\<close> would report that the model is still loading, but \<open>handleCommand\<close>
  never calls it. While the model is loading, \<open>make body red\<close> moves the body selector from
  \<open>black\<close> to \<open>red\<close> and logs that the colour was set; before the material library is
  built, the same command throws.
\<close>

theorem command_while_loading:
  "carModel loadingState = None
   \<and> body (carParts loadingState) = []
   \<and> ensureCarReady loadingState =
       (False, addMessage ''Bot'' ''Car model is still loading. Try again in a moment.'' loadingState)
   \<and> (case handleCommand openDoors (Some ''make body red'') loadingState of
        Inl e \<Rightarrow> False
      | Inr (out, s') \<Rightarrow>
          out = Applied ''Body color set to red.''
          \<and> selectedIndex (bodyMatSelect loadingState) = 3
          \<and> selectedIndex (bodyMatSelect s') = 2
          \<and> chatLog s' = [(''bot'', ''Body color set to red.'')])
   \<and> handleCommand openDoors (Some ''make body red'') (initLights startState) = Inl TypeError"
proof -
  have a: "carModel loadingState = None" "body (carParts loadingState) = []"
    by (simp_all add: loadingState_fields emptyParts_def)
  then have b: "ensureCarReady loadingState =
       (False, addMessage ''Bot'' ''Car model is still loading. Try again in a moment.'' loadingState)"
    by (simp add: ensureCarReady_def)
  have c: "(case handleCommand openDoors (Some ''make body red'') loadingState of
        Inl e \<Rightarrow> False
      | Inr (out, s') \<Rightarrow>
          out = Applied ''Body color set to red.''
          \<and> selectedIndex (bodyMatSelect loadingState) = 3
          \<and> selectedIndex (bodyMatSelect s') = 2
          \<and> chatLog s' = [(''bot'', ''Body color set to red.'')])"
    using loadingState_names
    by (simp add: command_eval loadingState_fields string_eval)
  have d: "handleCommand openDoors (Some ''make body red'') (initLights startState) = Inl TypeError"
    by (simp add: handleCommand_def bodyCommand_def initLights_def startState_def Let_def string_eval)
  from a b c d show ?thesis by blast
qed


subsection \<open>Lighting presets\<close>

lemma setVisible_apply: "setVisible b vis ls l = (if l \<in> set ls then b else vis l)"
  unfolding setVisible_def by (induction ls arbitrary: vis) simp_all

text \<open>
  C7: after \<open>updateLighting\<close>, a light that is filed under some preset is visible if and only
  if the selected name is not \<open>none\<close>, is a preset, and the light is one of that preset's
  lights. So the visible lights are those of at most one preset, and with \<open>none\<close> (or a name
  that is no preset) none of them is visible.
\<close>

theorem updateLighting_one_preset:
  assumes "l \<in> set (concat (map snd (allLights s)))"
  shows "lightVisible (updateLighting s) l \<longleftrightarrow>
     (getValue (lightingSelect s) \<noteq> ''none''
      \<and> (\<exists>ls. map_of (allLights s) (getValue (lightingSelect s)) = Some ls \<and> l \<in> set ls))"
proof (cases "getValue (lightingSelect s) \<noteq> ''none''
      \<and> map_of (allLights s) (getValue (lightingSelect s)) \<noteq> None")
  case True
  then obtain ls where "map_of (allLights s) (getValue (lightingSelect s)) = Some ls" by auto
  with True assms show ?thesis
    by (simp add: updateLighting_def Let_def setVisible_apply del: set_concat)
next
  case False
  with assms show ?thesis
    by (auto simp add: updateLighting_def Let_def setVisible_apply simp del: set_concat)
qed

text \<open>
  From \<open>ambient\<close> (light 1) to \<open>showroom\<close> (lights 4, 5, 6), and from \<open>ambient\<close> to \<open>none\<close>.
\<close>

theorem updateLighting_one_preset_witness:
  "lightVisible (updateLighting (loadingState\<lparr>lightingSelect := setValue ''ambient'' (lightingSelect loadingState)\<rparr>)) 1
   \<and> \<not> lightVisible (updateLighting ((updateLighting (loadingState\<lparr>lightingSelect := setValue ''ambient'' (lightingSelect loadingState)\<rparr>))\<lparr>lightingSelect := setValue ''showroom'' (lightingSelect loadingState)\<rparr>)) 1
   \<and> lightVisible (updateLighting ((updateLighting (loadingState\<lparr>lightingSelect := setValue ''ambient'' (lightingSelect loadingState)\<rparr>))\<lparr>lightingSelect := setValue ''showroom'' (lightingSelect loadingState)\<rparr>)) 5
   \<and> \<not> lightVisible (updateLighting ((updateLighting (loadingState\<lparr>lightingSelect := setValue ''ambient'' (lightingSelect loadingState)\<rparr>))\<lparr>lightingSelect := setValue ''none'' (lightingSelect loadingState)\<rparr>)) 1"
proof -
  let ?s1 = "loadingState\<lparr>lightingSelect := setValue ''ambient'' (lightingSelect loadingState)\<rparr>"
  let ?s2 = "(updateLighting ?s1)\<lparr>lightingSelect := setValue ''showroom'' (lightingSelect loadingState)\<rparr>"
  let ?s3 = "(updateLighting ?s1)\<lparr>lightingSelect := setValue ''none'' (lightingSelect loadingState)\<rparr>"
  have al: "allLights ?s1 = allLights loadingState" "allLights ?s2 = allLights loadingState"
    "allLights ?s3 = allLights loadingState"
    by (simp_all add: updateLighting_def Let_def split: option.splits)
  have v: "getValue (lightingSelect ?s1) = ''ambient''" "getValue (lightingSelect ?s2) = ''showroom''"
    "getValue (lightingSelect ?s3) = ''none''"
    by (simp_all add: getValue_def setValue_def arrayGet_def loadingState_fields)
  have m1: "1 \<in> set (concat (map snd (allLights ?s1)))" "1 \<in> set (concat (map snd (allLights ?s2)))"
    "1 \<in> set (concat (map snd (allLights ?s3)))"
    by (simp_all only: al) (simp_all add: loadingState_fields)
  have m5: "5 \<in> set (concat (map snd (allLights ?s2)))"
    by (simp only: al) (simp add: loadingState_fields)
  have "lightVisible (updateLighting ?s1) 1"
    using updateLighting_one_preset [OF m1(1)] by (simp only: v al) (simp add: loadingState_fields)
  moreover have "\<not> lightVisible (updateLighting ?s2) 1"
    using updateLighting_one_preset [OF m1(2)] by (simp only: v al) (simp add: loadingState_fields)
  moreover have "lightVisible (updateLighting ?s2) 5"
    using updateLighting_one_preset [OF m5] by (simp only: v al) (simp add: loadingState_fields)
  moreover have "\<not> lightVisible (updateLighting ?s3) 1"
    using updateLighting_one_preset [OF m1(3)] by (simp only: v al) (simp add: loadingState_fields)
  ultimately show ?thesis by blast
qed

subsection \<open>Applying the selected materials\<close>

lemma assignMaterial_apply:
  "assignMaterial mat mm grp p = (if p \<in> set grp then Single mat else mm p)"
  unfolding assignMaterial_def by (induction grp arbitrary: mm) simp_all

text \<open>
  C8: once the material library is built, \<open>updateMaterials\<close> does not throw, and running it
  again on its result does not throw and changes nothing. After the first run every object of
  a group already holds the material selected for the group (the glass selection where groups
  overlap, then the rims', then the body's), and every other object holds what it held.
\<close>

theorem updateMaterials_idempotent:
  assumes "materialsLib s = Some lib"
  shows "\<exists>s'. updateMaterials s = Inr s' \<and> updateMaterials s' = Inr s'
     \<and> (\<forall>p. meshMaterial s' p =
          (if p \<in> set (glass (carParts s))
           then Single (arrayGet (lib_glass lib) (selectedIndex (glassMatSelect s)))
           else if p \<in> set (rims (carParts s))
           then Single (arrayGet (lib_main lib) (selectedIndex (rimMatSelect s)))
           else if p \<in> set (body (carParts s))
           then Single (arrayGet (lib_main lib) (selectedIndex (bodyMatSelect s)))
           else meshMaterial s p))"
proof -
  define bodyMat where "bodyMat = arrayGet (lib_main lib) (selectedIndex (bodyMatSelect s))"
  define rimMat where "rimMat = arrayGet (lib_main lib) (selectedIndex (rimMatSelect s))"
  define glassMat where "glassMat = arrayGet (lib_glass lib) (selectedIndex (glassMatSelect s))"
  define m3 where "m3 = assignMaterial glassMat
      (assignMaterial rimMat (assignMaterial bodyMat (meshMaterial s) (body (carParts s)))
         (rims (carParts s))) (glass (carParts s))"
  have first: "updateMaterials s = Inr (s\<lparr>meshMaterial := m3\<rparr>)"
    using assms by (simp add: updateMaterials_def Let_def m3_def bodyMat_def rimMat_def glassMat_def)
  have again: "assignMaterial glassMat
      (assignMaterial rimMat (assignMaterial bodyMat m3 (body (carParts s)))
         (rims (carParts s))) (glass (carParts s)) = m3"
    by (rule ext) (simp add: m3_def assignMaterial_apply)
  have second: "updateMaterials (s\<lparr>meshMaterial := m3\<rparr>) = Inr (s\<lparr>meshMaterial := m3\<rparr>)"
    using assms again
    by (simp add: updateMaterials_def Let_def bodyMat_def rimMat_def glassMat_def)
  have pointwise: "\<forall>p. m3 p =
          (if p \<in> set (glass (carParts s)) then Single glassMat
           else if p \<in> set (rims (carParts s)) then Single rimMat
           else if p \<in> set (body (carParts s)) then Single bodyMat
           else meshMaterial s p)"
    by (simp add: m3_def assignMaterial_apply)
  from first second pointwise show ?thesis
    by (simp add: bodyMat_def rimMat_def glassMat_def)
qed

text \<open>The page with the small model: black body, metallic rims, clear glass.\<close>

theorem updateMaterials_idempotent_witness:
  "materialsLib readyState = Some \<lparr>lib_main = [0, 1, 2, 3, 4, 5], lib_glass = [6, 7, 8, 9]\<rparr>
   \<and> (\<exists>s'. updateMaterials readyState = Inr s' \<and> updateMaterials s' = Inr s'
          \<and> meshMaterial s' 1 = Single (Some 3) \<and> meshMaterial s' 2 = Single (Some 6)
          \<and> meshMaterial s' 3 = Single (Some 5))"
proof -
  have h: "materialsLib readyState = Some \<lparr>lib_main = [0, 1, 2, 3, 4, 5], lib_glass = [6, 7, 8, 9]\<rparr>"
    by (simp add: readyState_fields loadingState_fields)
  from updateMaterials_idempotent [OF h] obtain s' where
    "updateMaterials readyState = Inr s'" and "updateMaterials s' = Inr s'"
    and mm: "\<forall>p. meshMaterial s' p =
          (if p \<in> set (glass (carParts readyState))
           then Single (arrayGet (lib_glass \<lparr>lib_main = [0, 1, 2, 3, 4, 5], lib_glass = [6, 7, 8, 9]\<rparr>)
                  (selectedIndex (glassMatSelect readyState)))
           else if p \<in> set (rims (carParts readyState))
           then Single (arrayGet (lib_main \<lparr>lib_main = [0, 1, 2, 3, 4, 5], lib_glass = [6, 7, 8, 9]\<rparr>)
                  (selectedIndex (rimMatSelect readyState)))
           else if p \<in> set (body (carParts readyState))
           then Single (arrayGet (lib_main \<lparr>lib_main = [0, 1, 2, 3, 4, 5], lib_glass = [6, 7, 8, 9]\<rparr>)
                  (selectedIndex (bodyMatSelect readyState)))
           else meshMaterial readyState p)"
    by blast
  moreover from mm have "meshMaterial s' 1 = Single (Some 3)" "meshMaterial s' 2 = Single (Some 6)"
    "meshMaterial s' 3 = Single (Some 5)"
    by (simp_all add: readyState_fields loadingState_fields arrayGet_def)
  ultimately show ?thesis using h by blast
qed

subsection \<open>\<open>setMeshColor\<close>\<close>






end
